theory Spec2Isabelle
  imports Complex_Main "HOL-Library.Word" "HOL-Library.Sublist"
begin

section \<open>Shared message types (types/stock.ts)\<close>

text \<open>
  The TypeScript enum and interfaces of the extension. A JavaScript \<open>number\<close> is
  modelled as a \<^typ>\<open>real\<close>: the rounding of IEEE doubles is not part of the model.
  Only the field of \<open>PluginConfig\<close> that the modelled code reads is kept.
\<close>

datatype MonitoringState = STOPPED | STARTING | RUNNING | STOPPING | ERROR

record StockData =
  code :: string
  name :: string
  currentPrice :: real
  buyPrice :: real
  quantity :: real
  profitAmount :: real
  profitPercent :: real
  marketValue :: real
  costBasis :: real
  change :: real
  changePercent :: real
  lastUpdate :: real
  enabled :: bool

record SummaryData =
  totalProfit :: real
  totalProfitPercent :: real
  totalMarketValue :: real
  totalCostBasis :: real
  stockCount :: nat
  enabledCount :: nat

record PluginConfig =
  updateInterval :: nat

datatype PythonCommandType =
  CmdStart | CmdStop | CmdPause | CmdResume | CmdUpdate | CmdGetConfig | CmdSetConfig

text \<open>
  The \<open>data\<close> member of a response has type \<open>any\<close>. What the code asks of it is
  whether it is falsy (\<open>response.data || []\<close>) and whether it is an array
  (\<open>Array.isArray\<close>).
\<close>

datatype payload = Absent | NonArray | Stocks "StockData list"

definition isArray :: "payload \<Rightarrow> bool" where
  "isArray d = (case d of Stocks _ \<Rightarrow> True | _ \<Rightarrow> False)"

fun elements :: "payload \<Rightarrow> StockData list" where
  "elements (Stocks xs) = xs"
| "elements _ = []"

section \<open>StateManager (stateManager.ts)\<close>

text \<open>
  Everything the class does to the outside is appended to one trace: messages shown
  through \<open>vscode.window\<close>, console output, calls into the Python client and listener
  notifications. A message is recorded by its severity and a short English name of the
  source's text. Listeners are passive observers here, identified by numbers; an exception
  of a listener is caught by the code and changes nothing.
\<close>

datatype severity = Information | Warning | Failure

datatype client_call =
  CallStartDaemon | CallSendConfig PluginConfig | CallRequestUpdate | CallSendCommand PythonCommandType

datatype effect =
  Shown severity string
  | Console severity string
  | Client client_call
  | StateNotified nat MonitoringState
  | UpdateNotified nat "StockData list"

text \<open>
  Every \<open>await\<close> of the class is a suspension point. A suspended call is recorded by
  the place it waits at; the promise it waits for is settled later by an event.
\<close>

datatype cont =
  StartAwaitDaemon | StartAwaitConfig | StopAwaitPause
  | RefreshAwaitUpdate | PollAwaitUpdate | ConfigAwaitSend

record StateManager =
  state :: MonitoringState
  timer :: "nat option"
  stockData :: "(string \<times> StockData) list"
  summaryData :: "SummaryData option"
  updateListeners :: "nat list"
  stateListeners :: "nat list"
  configChangeListener :: bool
  stockDataListener :: bool
  config :: PluginConfig
  awaiting :: "cont \<Rightarrow> nat"
  trace :: "effect list"

definition emit :: "effect \<Rightarrow> StateManager \<Rightarrow> StateManager" where
  "emit e s = s\<lparr>trace := trace s @ [e]\<rparr>"

definition suspend :: "cont \<Rightarrow> StateManager \<Rightarrow> StateManager" where
  "suspend k s = s\<lparr>awaiting := (awaiting s)(k := Suc (awaiting s k))\<rparr>"

definition resume :: "cont \<Rightarrow> StateManager \<Rightarrow> StateManager" where
  "resume k s = s\<lparr>awaiting := (awaiting s)(k := awaiting s k - 1)\<rparr>"

text \<open>
  The constructor: \<open>state = STOPPED\<close>, no timer, an empty map, no summary, and the two
  commands registered with the host (\<open>True\<close>: the registration is held, \<open>False\<close>: it is
  \<open>null\<close>). \<open>config\<close> is what \<open>configManager.getConfig()\<close> returns at the moment.
\<close>

definition new_StateManager :: "PluginConfig \<Rightarrow> StateManager" where
  "new_StateManager cfg =
     \<lparr>state = STOPPED, timer = None, stockData = [], summaryData = None,
      updateListeners = [], stateListeners = [], configChangeListener = True,
      stockDataListener = True, config = cfg,
      awaiting = (\<lambda>_. 0), trace = []\<rparr>"

subsection \<open>The snapshot map and the summary\<close>

text \<open>
  A JavaScript \<open>Map\<close> keeps insertion order: \<open>set\<close> on a present key replaces the
  value in place, on a new key it appends.
\<close>

fun map_set :: "string \<Rightarrow> 'v \<Rightarrow> (string \<times> 'v) list \<Rightarrow> (string \<times> 'v) list" where
  "map_set k v [] = [(k, v)]"
| "map_set k v ((k', v') # m) =
     (if k' = k then (k, v) # m else (k', v') # map_set k v m)"

definition map_values :: "(string \<times> 'v) list \<Rightarrow> 'v list" where
  "map_values m = map snd m"

definition getStockData :: "StateManager \<Rightarrow> StockData list" where
  "getStockData s = map_values (stockData s)"


definition getSummary :: "StateManager \<Rightarrow> SummaryData option" where
  "getSummary s = summaryData s"

definition getState :: "StateManager \<Rightarrow> MonitoringState" where
  "getState s = state s"

text \<open>The accumulation loop of \<open>calculateSummary\<close> over the enabled snapshots.\<close>

fun sum_loop :: "StockData list \<Rightarrow> real \<times> real \<times> real \<Rightarrow> real \<times> real \<times> real" where
  "sum_loop [] acc = acc"
| "sum_loop (stock # rest) (tp, tmv, tcb) =
     sum_loop rest (tp + profitAmount stock, tmv + marketValue stock, tcb + costBasis stock)"

definition calculateSummary :: "StateManager \<Rightarrow> StateManager" where
  "calculateSummary s =
     (let stocks = map_values (stockData s);
          enabledStocks = filter enabled stocks;
          (tp, tmv, tcb) = sum_loop enabledStocks (0, 0, 0);
          pct = (if tcb > 0 then (tp / tcb) * 100 else 0)
      in s\<lparr>summaryData := Some
            \<lparr>totalProfit = tp, totalProfitPercent = pct, totalMarketValue = tmv,
             totalCostBasis = tcb, stockCount = length stocks,
             enabledCount = length enabledStocks\<rparr>\<rparr>)"

definition notifyUpdateListeners :: "StateManager \<Rightarrow> StateManager" where
  "notifyUpdateListeners s =
     fold (\<lambda>l. emit (UpdateNotified l (getStockData s))) (updateListeners s) s"

definition notifyStateListeners :: "StateManager \<Rightarrow> StateManager" where
  "notifyStateListeners s =
     fold (\<lambda>l. emit (StateNotified l (state s))) (stateListeners s) s"

definition setState :: "MonitoringState \<Rightarrow> StateManager \<Rightarrow> StateManager" where
  "setState newState s = notifyStateListeners (s\<lparr>state := newState\<rparr>)"

definition merge_stocks :: "StockData list \<Rightarrow> (string \<times> StockData) list \<Rightarrow> (string \<times> StockData) list" where
  "merge_stocks xs m = fold (\<lambda>stock. map_set (code stock) stock) xs m"

definition handleStockData :: "payload \<Rightarrow> StateManager \<Rightarrow> StateManager" where
  "handleStockData data s =
     (if \<not> isArray data then s
      else notifyUpdateListeners (calculateSummary
             (s\<lparr>stockData := merge_stocks (elements data) (stockData s)\<rparr>)))"

subsection \<open>The poll timer\<close>

definition stopUpdateTimer :: "StateManager \<Rightarrow> StateManager" where
  "stopUpdateTimer s = (case timer s of Some _ \<Rightarrow> s\<lparr>timer := None\<rparr> | None \<Rightarrow> s)"

text \<open>
  \<open>performUpdate\<close> up to its \<open>await\<close>: the update request goes out and the call
  suspends. \<open>performUpdate_settled\<close> is the rest, run when the promise settles
  (\<open>None\<close>: it was rejected).
\<close>

definition performUpdate :: "StateManager \<Rightarrow> StateManager" where
  "performUpdate s = suspend PollAwaitUpdate (emit (Client CallRequestUpdate) s)"

definition performUpdate_settled :: "payload option \<Rightarrow> StateManager \<Rightarrow> StateManager" where
  "performUpdate_settled r s =
     (case r of
        Some data \<Rightarrow> handleStockData data s
      | None \<Rightarrow>
          (let s1 = emit (Console Failure ''update failed'') s
           in if state s1 = RUNNING
              then emit (Shown Failure ''update failed'') (setState ERROR s1)
              else s1))"

definition startUpdateTimer :: "StateManager \<Rightarrow> StateManager" where
  "startUpdateTimer s =
     (let interval = updateInterval (config s) * 1000;
          s1 = stopUpdateTimer s;
          s2 = s1\<lparr>timer := Some interval\<rparr>
      in performUpdate s2)"

definition timer_tick :: "StateManager \<Rightarrow> StateManager" where
  "timer_tick s = (if state s = RUNNING then performUpdate s else s)"

subsection \<open>start, stop and refresh\<close>

definition start :: "StateManager \<Rightarrow> StateManager" where
  "start s =
     (if state s \<noteq> STOPPED then s
      else suspend StartAwaitDaemon (emit (Client CallStartDaemon) (setState STARTING s)))"

definition start_failed :: "StateManager \<Rightarrow> StateManager" where
  "start_failed s = emit (Shown Failure ''start failed'') (setState ERROR s)"

definition start_daemon_returned :: "bool \<Rightarrow> StateManager \<Rightarrow> StateManager" where
  "start_daemon_returned success s =
     (if \<not> success then start_failed s
      else suspend StartAwaitConfig (emit (Client (CallSendConfig (config s))) s))"

definition start_config_settled :: "bool \<Rightarrow> StateManager \<Rightarrow> StateManager" where
  "start_config_settled ok s =
     (if \<not> ok then start_failed s
      else emit (Shown Information ''monitoring started'')
             (setState RUNNING (startUpdateTimer s)))"

definition stop :: "StateManager \<Rightarrow> StateManager" where
  "stop s =
     (if state s \<noteq> RUNNING then s
      else suspend StopAwaitPause
             (emit (Client (CallSendCommand CmdPause))
                (stopUpdateTimer (setState STOPPING s))))"

definition stop_pause_settled :: "bool \<Rightarrow> StateManager \<Rightarrow> StateManager" where
  "stop_pause_settled ok s =
     (let s1 = (if ok then s else emit (Console Warning ''pause failed'') s)
      in emit (Shown Information ''monitoring stopped'') (setState STOPPED s1))"

definition refresh :: "StateManager \<Rightarrow> StateManager" where
  "refresh s =
     (if state s \<noteq> RUNNING then emit (Shown Warning ''not running'') s
      else suspend RefreshAwaitUpdate (emit (Client CallRequestUpdate) s))"

definition refresh_settled :: "payload option \<Rightarrow> StateManager \<Rightarrow> StateManager" where
  "refresh_settled r s =
     (case r of
        Some data \<Rightarrow> emit (Shown Information ''refreshed'') (handleStockData data s)
      | None \<Rightarrow> emit (Shown Failure ''refresh failed'') s)"

subsection \<open>Configuration changes, listeners, disposal\<close>

definition handleConfigChange :: "PluginConfig \<Rightarrow> StateManager \<Rightarrow> StateManager" where
  "handleConfigChange cfg s =
     (if state s = RUNNING
      then suspend ConfigAwaitSend (emit (Client (CallSendConfig cfg)) s)
      else s)"

definition config_push_settled :: "bool \<Rightarrow> StateManager \<Rightarrow> StateManager" where
  "config_push_settled ok s =
     (if ok then s else emit (Console Failure ''config push failed'') s)"

definition addUpdateListener :: "nat \<Rightarrow> StateManager \<Rightarrow> StateManager" where
  "addUpdateListener l s = s\<lparr>updateListeners := updateListeners s @ [l]\<rparr>"

definition removeUpdateListener :: "nat \<Rightarrow> StateManager \<Rightarrow> StateManager" where
  "removeUpdateListener l s = s\<lparr>updateListeners := remove1 l (updateListeners s)\<rparr>"

definition addStateListener :: "nat \<Rightarrow> StateManager \<Rightarrow> StateManager" where
  "addStateListener l s = s\<lparr>stateListeners := stateListeners s @ [l]\<rparr>"

definition removeStateListener :: "nat \<Rightarrow> StateManager \<Rightarrow> StateManager" where
  "removeStateListener l s = s\<lparr>stateListeners := remove1 l (stateListeners s)\<rparr>"

definition dispose :: "StateManager \<Rightarrow> StateManager" where
  "dispose s =
     (stopUpdateTimer s)\<lparr>updateListeners := [], stateListeners := [], stockData := [],
                          configChangeListener := False, stockDataListener := False\<rparr>"

subsection \<open>The event loop as seen by the StateManager\<close>

text \<open>
  One event is one turn of the single-threaded event loop: a call of a public method, the
  settling of a promise some call waits for (possible only while such a call is
  suspended), a tick of the interval timer (possible only while it is armed), a command
  of the host's registry (\<open>trad.onConfigChanged\<close>, \<open>trad.onStockData\<close>; delivered only
  while it is registered), or a change of the configuration held by the configuration
  manager (\<open>SetConfig\<close>).
\<close>

datatype sm_event =
  Start | Stop | Refresh
  | DaemonReturned bool
  | ConfigSettled bool
  | PauseSettled bool
  | RefreshSettled "payload option"
  | PollSettled "payload option"
  | ConfigPushSettled bool
  | TimerTick
  | OnConfigChanged PluginConfig
  | OnStockData payload
  | SetConfig PluginConfig
  | AddUpdateListener nat | RemoveUpdateListener nat
  | AddStateListener nat | RemoveStateListener nat
  | Dispose

definition settle :: "cont \<Rightarrow> (StateManager \<Rightarrow> StateManager) \<Rightarrow> StateManager \<Rightarrow> StateManager" where
  "settle k f s = (if awaiting s k = 0 then s else f (resume k s))"

fun sm_step :: "StateManager \<Rightarrow> sm_event \<Rightarrow> StateManager" where
  "sm_step s Start = start s"
| "sm_step s Stop = stop s"
| "sm_step s Refresh = refresh s"
| "sm_step s (DaemonReturned b) = settle StartAwaitDaemon (start_daemon_returned b) s"
| "sm_step s (ConfigSettled b) = settle StartAwaitConfig (start_config_settled b) s"
| "sm_step s (PauseSettled b) = settle StopAwaitPause (stop_pause_settled b) s"
| "sm_step s (RefreshSettled r) = settle RefreshAwaitUpdate (refresh_settled r) s"
| "sm_step s (PollSettled r) = settle PollAwaitUpdate (performUpdate_settled r) s"
| "sm_step s (ConfigPushSettled b) = settle ConfigAwaitSend (config_push_settled b) s"
| "sm_step s TimerTick = (case timer s of None \<Rightarrow> s | Some _ \<Rightarrow> timer_tick s)"
| "sm_step s (OnConfigChanged cfg) =
     (if configChangeListener s then handleConfigChange cfg s else s)"
| "sm_step s (OnStockData data) = (if stockDataListener s then handleStockData data s else s)"
| "sm_step s (SetConfig cfg) = s\<lparr>config := cfg\<rparr>"
| "sm_step s (AddUpdateListener l) = addUpdateListener l s"
| "sm_step s (RemoveUpdateListener l) = removeUpdateListener l s"
| "sm_step s (AddStateListener l) = addStateListener l s"
| "sm_step s (RemoveStateListener l) = removeStateListener l s"
| "sm_step s Dispose = dispose s"

definition sm_run :: "StateManager \<Rightarrow> sm_event list \<Rightarrow> StateManager" where
  "sm_run s evs = foldl sm_step s evs"

section \<open>PythonClient (pythonClient.ts)\<close>

subsection \<open>Messages\<close>

datatype response_type = TResponse | TData | TError | TStatus

record PythonResponse =
  resp_type :: response_type
  resp_id :: "string option"
  resp_timestamp :: real
  resp_data :: payload
  resp_error :: "string option"
  resp_status :: "string option"

record PythonCommand =
  cmd_command :: PythonCommandType
  cmd_id :: string
  cmd_timestamp :: real
  cmd_payload :: "PluginConfig option"

subsection \<open>Text: decoding, splitting, trimming\<close>

text \<open>
  A chunk of the worker's standard output is a \<open>Buffer\<close> of bytes. The text of a
  JavaScript string is modelled as the list of its code points.

  \<open>Buffer.toString()\<close> decodes one buffer as UTF-8 on its own: an ill-formed or
  truncated sequence becomes U+FFFD, and no undecoded byte is carried over to the next
  call. \<open>toString\<close> below is the UTF-8 decoder of the Encoding Standard.
\<close>

type_synonym jstext = "nat list"

type_synonym byte = "8 word"

datatype lead = Single nat | Begin nat nat nat nat | Invalid

definition lead_byte :: "nat \<Rightarrow> lead" where
  "lead_byte v =
     (if v \<le> 0x7F then Single v
      else if 0xC2 \<le> v \<and> v \<le> 0xDF then Begin 1 (v mod 32) 0x80 0xBF
      else if 0xE0 \<le> v \<and> v \<le> 0xEF
        then Begin 2 (v mod 16) (if v = 0xE0 then 0xA0 else 0x80) (if v = 0xED then 0x9F else 0xBF)
      else if 0xF0 \<le> v \<and> v \<le> 0xF4
        then Begin 3 (v mod 8) (if v = 0xF0 then 0x90 else 0x80) (if v = 0xF4 then 0x8F else 0xBF)
      else Invalid)"

text \<open>
  \<open>utf8 needed cp lo hi bs\<close>: \<open>needed\<close> continuation bytes are still expected for the
  code point collected in \<open>cp\<close>, the next of them within \<open>lo..hi\<close>. A byte outside the
  range ends the sequence with U+FFFD and is then read again as a first byte.
\<close>

fun utf8 :: "nat \<Rightarrow> nat \<Rightarrow> nat \<Rightarrow> nat \<Rightarrow> byte list \<Rightarrow> jstext" where
  "utf8 needed cp lo hi [] = (if needed = 0 then [] else [0xFFFD])"
| "utf8 needed cp lo hi (b # bs) =
     (let v = unat b in
      if needed \<noteq> 0 \<and> lo \<le> v \<and> v \<le> hi then
        (if needed = 1 then (cp * 64 + v mod 64) # utf8 0 0 0x80 0xBF bs
         else utf8 (needed - 1) (cp * 64 + v mod 64) 0x80 0xBF bs)
      else
        (if needed \<noteq> 0 then [0xFFFD] else []) @
        (case lead_byte v of
           Single c \<Rightarrow> c # utf8 0 0 0x80 0xBF bs
         | Begin n c l h \<Rightarrow> utf8 n c l h bs
         | Invalid \<Rightarrow> 0xFFFD # utf8 0 0 0x80 0xBF bs))"

definition toString :: "byte list \<Rightarrow> jstext" where
  "toString bs = utf8 0 0 0x80 0xBF bs"

text \<open>\<open>String.prototype.split('\n')\<close>: one piece more than there are newlines.\<close>

fun split_nl :: "jstext \<Rightarrow> jstext list" where
  "split_nl [] = [[]]"
| "split_nl (c # cs) =
     (if c = 10 then [] # split_nl cs
      else (case split_nl cs of l # ls \<Rightarrow> (c # l) # ls | [] \<Rightarrow> [[c]]))"

text \<open>\<open>String.prototype.trim\<close> removes white space and line terminators at both ends.\<close>

definition js_space :: "nat \<Rightarrow> bool" where
  "js_space c =
     (c = 9 \<or> c = 10 \<or> c = 11 \<or> c = 12 \<or> c = 13 \<or> c = 32 \<or> c = 0xA0 \<or> c = 0x1680
      \<or> (0x2000 \<le> c \<and> c \<le> 0x200A) \<or> c = 0x2028 \<or> c = 0x2029 \<or> c = 0x202F
      \<or> c = 0x205F \<or> c = 0x3000 \<or> c = 0xFEFF)"

definition trim :: "jstext \<Rightarrow> jstext" where
  "trim t = rev (dropWhile js_space (rev (dropWhile js_space t)))"

subsection \<open>The client and the runtime around it\<close>

text \<open>
  \<open>PythonClient\<close> holds the fields of the class. A callback stored in
  \<open>pendingRequests\<close> is the closure made by one \<open>sendCommand\<close> call; it is identified by
  the handle of the timeout that call armed.

  \<open>node\<close> adds what the class reaches through the runtime: the child processes it
  spawned (\<open>exited\<close>: the exit event was emitted; \<open>killed\<close>: a signal was sent with
  \<open>kill\<close>), the \<open>once('exit')\<close> listeners of \<open>stopDaemon\<close> with the call each of them
  resumes, the armed timeouts, the clock in milliseconds, and logs of what was done:
  the commands written, the \<open>resolve\<close>/\<open>reject\<close> calls on the promises of
  \<open>sendCommand\<close>, and the effects on the host.
\<close>

record ChildProcess =
  exited :: bool
  killed :: bool

datatype start_caller = External | Restart

datatype after_stop = ThenSpawn start_caller | ThenNothing

datatype timer_action = CommandTimeout PythonCommand | RestartDelay

record timeout =
  handle :: nat
  deadline :: nat
  action :: timer_action

datatype completion = Resolved PythonResponse | TimedOut | NotRunning

datatype client_effect =
  InfoDaemonStarted
  | ErrDaemonStartFailed
  | WarnRestarting nat nat
  | InfoRestarted
  | ErrRestartsExhausted
  | ErrPython "string option"
  | LogPythonError "string option"
  | LogExit "int option" "string option"
  | LogStderr
  | LogProcessError
  | LogParseFailure jstext
  | BusStockData payload
  | Handled PythonResponse
  | Spawned nat
  | Signalled nat
  | Written nat PythonCommand
  | StartDaemonResult bool

record PythonClient =
  pythonProcess :: "nat option"
  pendingRequests :: "string \<Rightarrow> nat option"
  messageBuffer :: jstext
  isConnected :: bool
  restartCount :: nat
  maxRestarts :: nat

record node = PythonClient +
  procs :: "ChildProcess list"
  exit_once :: "(nat \<times> after_stop) list"
  timers :: "timeout list"
  now :: nat
  next_handle :: nat
  spawn_calls :: nat
  sent :: "(nat \<times> PythonCommand \<times> nat) list"
  settled :: "(nat \<times> completion) list"
  effects :: "client_effect list"

definition new_PythonClient :: node where
  "new_PythonClient =
     \<lparr>pythonProcess = None, pendingRequests = (\<lambda>_. None), messageBuffer = [],
      isConnected = False, restartCount = 0, maxRestarts = 5,
      procs = [], exit_once = [], timers = [], now = 0, next_handle = 0, spawn_calls = 0,
      sent = [], settled = [], effects = []\<rparr>"

definition effect :: "client_effect \<Rightarrow> node \<Rightarrow> node" where
  "effect e w = w\<lparr>effects := effects w @ [e]\<rparr>"

definition setTimeout :: "timer_action \<Rightarrow> nat \<Rightarrow> node \<Rightarrow> node" where
  "setTimeout a ms w =
     w\<lparr>timers := timers w @ [\<lparr>handle = next_handle w, deadline = now w + ms, action = a\<rparr>],
       next_handle := Suc (next_handle w)\<rparr>"

definition clearTimeout :: "nat \<Rightarrow> node \<Rightarrow> node" where
  "clearTimeout h w = w\<lparr>timers := filter (\<lambda>t. handle t \<noteq> h) (timers w)\<rparr>"

definition proc_killed :: "node \<Rightarrow> nat \<Rightarrow> bool" where
  "proc_killed w p = (p < length (procs w) \<and> killed (procs w ! p))"

text \<open>
  \<open>ChildProcess.kill\<close>: the signal is sent, and \<open>killed\<close> set, only while the process
  has not exited. The exit itself is an event of its own, later.
\<close>

definition kill :: "nat \<Rightarrow> node \<Rightarrow> node" where
  "kill p w =
     (if p < length (procs w) \<and> \<not> exited (procs w ! p)
      then effect (Signalled p) (w\<lparr>procs := (procs w)[p := (procs w ! p)\<lparr>killed := True\<rparr>]\<rparr>)
      else w)"

subsection \<open>startDaemon and stopDaemon\<close>

text \<open>
  \<open>startDaemon_returned\<close>: the caller of \<open>startDaemon\<close> goes on. The restart path shows
  its message whatever the result, since \<open>startDaemon\<close> never throws.
  \<open>startDaemon_spawn\<close>: \<open>startDaemon\<close> from the call of \<open>spawn\<close> on; \<open>spawn_ok n\<close> says
  whether the \<open>n\<close>-th call of \<open>spawn\<close> returns a process (otherwise it throws).
\<close>

definition startDaemon_returned :: "start_caller \<Rightarrow> bool \<Rightarrow> node \<Rightarrow> node" where
  "startDaemon_returned caller r w =
     (case caller of External \<Rightarrow> effect (StartDaemonResult r) w | Restart \<Rightarrow> effect InfoRestarted w)"

definition startDaemon_spawn :: "(nat \<Rightarrow> bool) \<Rightarrow> start_caller \<Rightarrow> node \<Rightarrow> node" where
  "startDaemon_spawn spawn_ok caller w =
     (let n = spawn_calls w; w1 = w\<lparr>spawn_calls := Suc n\<rparr>; p = length (procs w)
      in if spawn_ok n
         then startDaemon_returned caller True
                (effect InfoDaemonStarted (effect (Spawned p)
                  (w1\<lparr>pythonProcess := Some p,
                      procs := procs w @ [\<lparr>exited = False, killed = False\<rparr>],
                      isConnected := True, restartCount := 0\<rparr>)))
         else startDaemon_returned caller False (effect ErrDaemonStartFailed w1))"

definition run_after_stop :: "(nat \<Rightarrow> bool) \<Rightarrow> after_stop \<Rightarrow> node \<Rightarrow> node" where
  "run_after_stop spawn_ok c w =
     (case c of ThenSpawn caller \<Rightarrow> startDaemon_spawn spawn_ok caller w | ThenNothing \<Rightarrow> w)"

definition stopDaemon :: "(nat \<Rightarrow> bool) \<Rightarrow> after_stop \<Rightarrow> node \<Rightarrow> node" where
  "stopDaemon spawn_ok c w =
     (case pythonProcess w of
        None \<Rightarrow> run_after_stop spawn_ok c w
      | Some p \<Rightarrow>
          if proc_killed w p then run_after_stop spawn_ok c w
          else kill p (w\<lparr>exit_once := exit_once w @ [(p, c)]\<rparr>))"

definition startDaemon :: "(nat \<Rightarrow> bool) \<Rightarrow> start_caller \<Rightarrow> node \<Rightarrow> node" where
  "startDaemon spawn_ok caller w =
     (case pythonProcess w of
        None \<Rightarrow> startDaemon_spawn spawn_ok caller w
      | Some p \<Rightarrow>
          if \<not> proc_killed w p then stopDaemon spawn_ok (ThenSpawn caller) w
          else startDaemon_spawn spawn_ok caller w)"

subsection \<open>Process exit and the restart policy\<close>

text \<open>
  \<open>handleProcessExit\<close> up to its \<open>await\<close>: the bound is checked, the counter
  incremented, the one-second delay armed. When the delay has passed the call goes on
  with \<open>startDaemon\<close>.
\<close>

definition handleProcessExit :: "node \<Rightarrow> node" where
  "handleProcessExit w =
     (if restartCount w \<ge> maxRestarts w then effect ErrRestartsExhausted w
      else (let w1 = w\<lparr>restartCount := restartCount w + 1\<rparr>
            in setTimeout RestartDelay 1000
                 (effect (WarnRestarting (restartCount w1) (maxRestarts w1)) w1)))"

definition exit_handler :: "int option \<Rightarrow> string option \<Rightarrow> node \<Rightarrow> node" where
  "exit_handler c sig w =
     (let w1 = effect (LogExit c sig) (w\<lparr>isConnected := False\<rparr>)
      in if c \<noteq> Some 0 \<and> c \<noteq> None then handleProcessExit w1 else w1)"

definition once_exit_listener :: "node \<Rightarrow> node" where
  "once_exit_listener w = w\<lparr>pythonProcess := None, isConnected := False\<rparr>"

text \<open>
  The exit event of process \<open>p\<close>, emitted once: the listener of \<open>setupProcessHandlers\<close>
  runs first, then the \<open>once\<close> listeners of \<open>stopDaemon\<close> in the order they were added;
  the calls they resolve go on after all listeners have run.
\<close>

definition on_exit :: "(nat \<Rightarrow> bool) \<Rightarrow> nat \<Rightarrow> int option \<Rightarrow> string option \<Rightarrow> node \<Rightarrow> node" where
  "on_exit spawn_ok p c sig w =
     (if p < length (procs w) \<and> \<not> exited (procs w ! p)
      then
        (let w1 = w\<lparr>procs := (procs w)[p := (procs w ! p)\<lparr>exited := True\<rparr>]\<rparr>;
             w2 = exit_handler c sig w1;
             waiting = filter (\<lambda>e. fst e = p) (exit_once w2);
             w3 = fold (\<lambda>_. once_exit_listener) waiting
                    (w2\<lparr>exit_once := filter (\<lambda>e. fst e \<noteq> p) (exit_once w2)\<rparr>)
         in fold (\<lambda>e. run_after_stop spawn_ok (snd e)) waiting w3)
      else w)"

definition on_error :: "nat \<Rightarrow> node \<Rightarrow> node" where
  "on_error p w =
     (if p < length (procs w) then (effect LogProcessError w)\<lparr>isConnected := False\<rparr> else w)"

subsection \<open>sendCommand and handleResponse\<close>

definition reject_promise :: "nat \<Rightarrow> completion \<Rightarrow> node \<Rightarrow> node" where
  "reject_promise h c w = w\<lparr>settled := settled w @ [(h, c)]\<rparr>"

definition resolve_promise :: "nat \<Rightarrow> PythonResponse \<Rightarrow> node \<Rightarrow> node" where
  "resolve_promise h r w = w\<lparr>settled := settled w @ [(h, Resolved r)]\<rparr>"

definition sendCommand :: "PythonCommand \<Rightarrow> node \<Rightarrow> node" where
  "sendCommand command w =
     (case pythonProcess w of
        None \<Rightarrow> reject_promise (next_handle w) NotRunning (w\<lparr>next_handle := Suc (next_handle w)\<rparr>)
      | Some p \<Rightarrow>
          if proc_killed w p
          then reject_promise (next_handle w) NotRunning (w\<lparr>next_handle := Suc (next_handle w)\<rparr>)
          else
            (let h = next_handle w;
                 w1 = setTimeout (CommandTimeout command) 10000 w;
                 w2 = w1\<lparr>pendingRequests := (pendingRequests w1)(cmd_id command \<mapsto> h),
                         sent := sent w1 @ [(h, command, now w1)]\<rparr>
             in effect (Written p command) w2))"

text \<open>The callback of the timeout armed by \<open>sendCommand\<close>.\<close>

definition command_timeout :: "nat \<Rightarrow> PythonCommand \<Rightarrow> node \<Rightarrow> node" where
  "command_timeout h command w =
     reject_promise h TimedOut
       (w\<lparr>pendingRequests := (pendingRequests w)(cmd_id command := None)\<rparr>)"

text \<open>The callback stored in \<open>pendingRequests\<close> by \<open>sendCommand\<close>.\<close>

definition pending_callback :: "nat \<Rightarrow> PythonResponse \<Rightarrow> node \<Rightarrow> node" where
  "pending_callback h response w = resolve_promise h response (clearTimeout h w)"

text \<open>The branches of \<open>handleResponse\<close> for a response no callback is waiting for.\<close>

definition unsolicited :: "PythonResponse \<Rightarrow> node \<Rightarrow> node" where
  "unsolicited response w =
     (if resp_type response = TData then effect (BusStockData (resp_data response)) w
      else if resp_type response = TError
        then effect (ErrPython (resp_error response))
               (effect (LogPythonError (resp_error response)) w)
      else w)"

text \<open>
  \<open>Handled\<close> marks the call itself. A response without an \<open>id\<close> finds no callback:
  the keys of the map are the strings set by \<open>sendCommand\<close>.
\<close>

definition handleResponse :: "PythonResponse \<Rightarrow> node \<Rightarrow> node" where
  "handleResponse response w0 =
     (let w = effect (Handled response) w0
      in case resp_id response of
           None \<Rightarrow> unsolicited response w
         | Some i \<Rightarrow>
             (case pendingRequests w i of
                Some h \<Rightarrow>
                  pending_callback h response
                    (w\<lparr>pendingRequests := (pendingRequests w)(i := None)\<rparr>)
              | None \<Rightarrow> unsolicited response w))"

subsection \<open>processMessages\<close>

text \<open>
  \<open>parse\<close> stands for \<open>JSON.parse\<close> followed by the use of the value as a response:
  \<open>None\<close> when that throws inside the \<open>try\<close>.
\<close>

definition process_line :: "(jstext \<Rightarrow> PythonResponse option) \<Rightarrow> jstext \<Rightarrow> node \<Rightarrow> node" where
  "process_line parse line w =
     (if trim line = [] then w
      else (case parse line of
              Some response \<Rightarrow> handleResponse response w
            | None \<Rightarrow> effect (LogParseFailure line) w))"

definition processMessages :: "(jstext \<Rightarrow> PythonResponse option) \<Rightarrow> node \<Rightarrow> node" where
  "processMessages parse w =
     (let lines = split_nl (messageBuffer w)
      in fold (process_line parse) (butlast lines) (w\<lparr>messageBuffer := last lines\<rparr>))"

definition on_stdout_data :: "(jstext \<Rightarrow> PythonResponse option) \<Rightarrow> byte list \<Rightarrow> node \<Rightarrow> node" where
  "on_stdout_data parse data w =
     processMessages parse (w\<lparr>messageBuffer := messageBuffer w @ toString data\<rparr>)"

text \<open>The same handler on text that is already decoded.\<close>

definition feed_text :: "(jstext \<Rightarrow> PythonResponse option) \<Rightarrow> jstext \<Rightarrow> node \<Rightarrow> node" where
  "feed_text parse txt w = processMessages parse (w\<lparr>messageBuffer := messageBuffer w @ txt\<rparr>)"

subsection \<open>Timers and disposal\<close>

text \<open>A timeout fires if it is still armed; firing disarms it.\<close>

definition fire :: "(nat \<Rightarrow> bool) \<Rightarrow> timeout \<Rightarrow> node \<Rightarrow> node" where
  "fire spawn_ok t w =
     (if t \<notin> set (timers w) then w
      else (let w1 = clearTimeout (handle t) w
            in case action t of
                 CommandTimeout command \<Rightarrow> command_timeout (handle t) command w1
               | RestartDelay \<Rightarrow> startDaemon spawn_ok Restart w1))"

text \<open>
  Time passes: the timeouts that fall due fire in the order of their deadlines (armed
  first, first to fire among equals). No callback of this class arms a timeout or reads
  the clock, so the due ones are known beforehand and the clock is moved first.
\<close>

definition advance :: "(nat \<Rightarrow> bool) \<Rightarrow> nat \<Rightarrow> node \<Rightarrow> node" where
  "advance spawn_ok ms w =
     (let due = sort_key deadline (filter (\<lambda>t. deadline t \<le> now w + ms) (timers w))
      in fold (fire spawn_ok) due (w\<lparr>now := now w + ms\<rparr>))"

definition isDaemonConnected :: "node \<Rightarrow> bool" where
  "isDaemonConnected w =
     (isConnected w \<and> (case pythonProcess w of None \<Rightarrow> False | Some p \<Rightarrow> \<not> proc_killed w p))"

definition dispose_client :: "node \<Rightarrow> node" where
  "dispose_client w =
     (let w1 = (case pythonProcess w of
                  None \<Rightarrow> w
                | Some p \<Rightarrow> if \<not> proc_killed w p then kill p w else w)
      in w1\<lparr>pendingRequests := (\<lambda>_. None)\<rparr>)"

subsection \<open>The event loop as seen by the PythonClient\<close>

datatype client_event =
  EvStartDaemon
  | EvStopDaemon
  | EvSendCommand PythonCommand
  | EvDispose
  | EvExit nat "int option" "string option"
  | EvError nat
  | EvStdout nat "byte list"
  | EvStderr nat "byte list"
  | EvAdvance nat

fun client_step ::
  "(jstext \<Rightarrow> PythonResponse option) \<Rightarrow> (nat \<Rightarrow> bool) \<Rightarrow> node \<Rightarrow> client_event \<Rightarrow> node" where
  "client_step parse spawn_ok w EvStartDaemon = startDaemon spawn_ok External w"
| "client_step parse spawn_ok w EvStopDaemon = stopDaemon spawn_ok ThenNothing w"
| "client_step parse spawn_ok w (EvSendCommand command) = sendCommand command w"
| "client_step parse spawn_ok w EvDispose = dispose_client w"
| "client_step parse spawn_ok w (EvExit p c sig) = on_exit spawn_ok p c sig w"
| "client_step parse spawn_ok w (EvError p) = on_error p w"
| "client_step parse spawn_ok w (EvStdout p data) =
     (if p < length (procs w) then on_stdout_data parse data w else w)"
| "client_step parse spawn_ok w (EvStderr p data) =
     (if p < length (procs w) then effect LogStderr w else w)"
| "client_step parse spawn_ok w (EvAdvance ms) = advance spawn_ok ms w"

definition client_run ::
  "(jstext \<Rightarrow> PythonResponse option) \<Rightarrow> (nat \<Rightarrow> bool) \<Rightarrow> node \<Rightarrow> client_event list \<Rightarrow> node" where
  "client_run parse spawn_ok w evs = foldl (client_step parse spawn_ok) w evs"

definition handled :: "node \<Rightarrow> PythonResponse list" where
  "handled w = concat (map (\<lambda>e. case e of Handled r \<Rightarrow> [r] | _ \<Rightarrow> []) (effects w))"

section \<open>Invariants and concrete inputs\<close>

subsection \<open>StateManager\<close>

text \<open>
  What holds of the suspended calls in every state reached from the constructor: at most
  one \<open>start\<close> is suspended, and exactly then the state is \<open>STARTING\<close>; at most one
  \<open>stop\<close> is suspended, and exactly then the state is \<open>STOPPING\<close>; while stopping the
  timer is disarmed.
\<close>

definition sm_inv :: "StateManager \<Rightarrow> bool" where
  "sm_inv s =
     (awaiting s StartAwaitDaemon + awaiting s StartAwaitConfig \<le> 1
      \<and> awaiting s StopAwaitPause \<le> 1
      \<and> (state s = STARTING) = (awaiting s StartAwaitDaemon + awaiting s StartAwaitConfig = 1)
      \<and> (state s = STOPPING) = (awaiting s StopAwaitPause = 1)
      \<and> (state s = STOPPING \<longrightarrow> timer s = None))"

definition cfg20 :: PluginConfig where
  "cfg20 = \<lparr>updateInterval = 20\<rparr>"


text \<open>A manager that runs: started, daemon up, configuration pushed.\<close>

definition running_manager :: StateManager where
  "running_manager =
     sm_run (new_StateManager cfg20) [Start, DaemonReturned True, ConfigSettled True]"

subsection \<open>PythonClient: the correlation table\<close>






definition timers_future :: "node \<Rightarrow> bool" where
  "timers_future w = (\<forall>t\<in>set (timers w). now w < deadline t)"


text \<open>Two states that agree on everything the correlation table consists of.\<close>

definition same_corr :: "node \<Rightarrow> node \<Rightarrow> bool" where
  "same_corr w' w =
     (timers w' = timers w \<and> next_handle w' = next_handle w \<and> settled w' = settled w
      \<and> sent w' = sent w \<and> pendingRequests w' = pendingRequests w \<and> now w' = now w)"




subsection \<open>PythonClient: concrete runs\<close>

text \<open>
  A status record whose string value is the one character U+00E9 (the two bytes C3 A9 in
  UTF-8), followed by a newline: its bytes, cut between C3 and A9, and the text of such a
  record with a given string value.
\<close>

definition status_bytes_1 :: "byte list" where
  "status_bytes_1 = [0x7B, 0x22, 0x73, 0x74, 0x61, 0x74, 0x75, 0x73, 0x22, 0x3A, 0x22, 0xC3]"

definition status_bytes_2 :: "byte list" where
  "status_bytes_2 = [0xA9, 0x22, 0x7D, 0x0A]"

definition status_text :: "jstext \<Rightarrow> jstext" where
  "status_text v =
     [0x7B, 0x22, 0x73, 0x74, 0x61, 0x74, 0x75, 0x73, 0x22, 0x3A, 0x22] @ v @ [0x22, 0x7D]"

text \<open>
  A parser that knows this one record and answers it with a response to the command
  \<open>cmd_1\<close>; every other line is malformed to it.
\<close>

definition status_response :: PythonResponse where
  "status_response =
     \<lparr>resp_type = TStatus, resp_id = Some ''cmd_1'', resp_timestamp = 0, resp_data = Absent,
      resp_error = None, resp_status = Some ''ok''\<rparr>"

definition status_parse :: "jstext \<Rightarrow> PythonResponse option" where
  "status_parse line = (if line = status_text [0xE9] then Some status_response else None)"


definition always_spawns :: "nat \<Rightarrow> bool" where
  "always_spawns n = True"

definition never_parses :: "jstext \<Rightarrow> PythonResponse option" where
  "never_parses line = None"


text \<open>
  A worker that ends with exit code 1 whenever it is sent the termination signal. It is
  started, and started again while it runs; from then on every exit is answered by a
  restart one second later, which stops the worker just spawned.
\<close>

definition exit_and_wait :: "nat \<Rightarrow> client_event list" where
  "exit_and_wait p = [EvExit p (Some 1) None, EvAdvance 1000]"

definition restart_loop :: "nat \<Rightarrow> client_event list" where
  "restart_loop n = [EvStartDaemon, EvStartDaemon] @ concat (map exit_and_wait [0..<n])"

definition looping_worker :: "nat \<Rightarrow> node" where
  "looping_worker n = client_run never_parses always_spawns new_PythonClient (restart_loop n)"

text \<open>
  The state in which that loop is between two rounds: worker \<open>p\<close> is the current one, it
  has been sent the signal by a \<open>startDaemon\<close> call that now waits for its exit, and the
  restart counter is 0.
\<close>

definition looping :: "node \<Rightarrow> nat \<Rightarrow> start_caller \<Rightarrow> bool" where
  "looping w p k =
     (pythonProcess w = Some p
      \<and> length (procs w) = Suc p
      \<and> procs w ! p = \<lparr>exited = False, killed = True\<rparr>
      \<and> exit_once w = [(p, ThenSpawn k)]
      \<and> restartCount w = 0 \<and> maxRestarts w = 5
      \<and> timers w = []
      \<and> count_list (effects w) (LogExit (Some 1) None) = p
      \<and> ErrRestartsExhausted \<notin> set (effects w))"

section \<open>Properties of the StateManager\<close>

subsection \<open>What each operation does to each field\<close>

lemma fold_emit_fields:
  "state (fold (\<lambda>l. emit (f l)) ls s) = state s"
  "timer (fold (\<lambda>l. emit (f l)) ls s) = timer s"
  "stockData (fold (\<lambda>l. emit (f l)) ls s) = stockData s"
  "summaryData (fold (\<lambda>l. emit (f l)) ls s) = summaryData s"
  "updateListeners (fold (\<lambda>l. emit (f l)) ls s) = updateListeners s"
  "stateListeners (fold (\<lambda>l. emit (f l)) ls s) = stateListeners s"
  "config (fold (\<lambda>l. emit (f l)) ls s) = config s"
  "awaiting (fold (\<lambda>l. emit (f l)) ls s) = awaiting s"
  "trace (fold (\<lambda>l. emit (f l)) ls s) = trace s @ map f ls"
  by (induction ls arbitrary: s) (simp_all add: emit_def)

lemma emit_fields:
  "state (emit e s) = state s"
  "timer (emit e s) = timer s"
  "stockData (emit e s) = stockData s"
  "summaryData (emit e s) = summaryData s"
  "updateListeners (emit e s) = updateListeners s"
  "stateListeners (emit e s) = stateListeners s"
  "config (emit e s) = config s"
  "awaiting (emit e s) = awaiting s"
  "trace (emit e s) = trace s @ [e]"
  by (simp_all add: emit_def)

lemma suspend_fields:
  "state (suspend k s) = state s"
  "timer (suspend k s) = timer s"
  "stockData (suspend k s) = stockData s"
  "summaryData (suspend k s) = summaryData s"
  "updateListeners (suspend k s) = updateListeners s"
  "stateListeners (suspend k s) = stateListeners s"
  "config (suspend k s) = config s"
  "awaiting (suspend k s) = (awaiting s)(k := Suc (awaiting s k))"
  "trace (suspend k s) = trace s"
  by (simp_all add: suspend_def)

lemma resume_fields:
  "state (resume k s) = state s"
  "timer (resume k s) = timer s"
  "stockData (resume k s) = stockData s"
  "summaryData (resume k s) = summaryData s"
  "updateListeners (resume k s) = updateListeners s"
  "stateListeners (resume k s) = stateListeners s"
  "config (resume k s) = config s"
  "awaiting (resume k s) = (awaiting s)(k := awaiting s k - 1)"
  "trace (resume k s) = trace s"
  by (simp_all add: resume_def)

lemma setState_fields:
  "state (setState st s) = st"
  "timer (setState st s) = timer s"
  "stockData (setState st s) = stockData s"
  "summaryData (setState st s) = summaryData s"
  "updateListeners (setState st s) = updateListeners s"
  "stateListeners (setState st s) = stateListeners s"
  "config (setState st s) = config s"
  "awaiting (setState st s) = awaiting s"
  "trace (setState st s) = trace s @ map (\<lambda>l. StateNotified l st) (stateListeners s)"
  by (simp_all add: setState_def notifyStateListeners_def fold_emit_fields)

lemma stopUpdateTimer_fields:
  "state (stopUpdateTimer s) = state s"
  "timer (stopUpdateTimer s) = None"
  "stockData (stopUpdateTimer s) = stockData s"
  "summaryData (stopUpdateTimer s) = summaryData s"
  "updateListeners (stopUpdateTimer s) = updateListeners s"
  "stateListeners (stopUpdateTimer s) = stateListeners s"
  "config (stopUpdateTimer s) = config s"
  "awaiting (stopUpdateTimer s) = awaiting s"
  "trace (stopUpdateTimer s) = trace s"
  by (simp_all add: stopUpdateTimer_def split: option.splits)

subsection \<open>The summary\<close>


lemma calculateSummary_fields:
  "state (calculateSummary s) = state s"
  "timer (calculateSummary s) = timer s"
  "stockData (calculateSummary s) = stockData s"
  "updateListeners (calculateSummary s) = updateListeners s"
  "stateListeners (calculateSummary s) = stateListeners s"
  "config (calculateSummary s) = config s"
  "awaiting (calculateSummary s) = awaiting s"
  "trace (calculateSummary s) = trace s"
  by (simp_all add: calculateSummary_def Let_def split: prod.splits)


lemma handleStockData_fields:
  "state (handleStockData d s) = state s"
  "timer (handleStockData d s) = timer s"
  "updateListeners (handleStockData d s) = updateListeners s"
  "stateListeners (handleStockData d s) = stateListeners s"
  "config (handleStockData d s) = config s"
  "awaiting (handleStockData d s) = awaiting s"
  by (simp_all add: handleStockData_def notifyUpdateListeners_def fold_emit_fields
      calculateSummary_fields)




text \<open>
  Claim C9. When the input of \<open>handleStockData\<close> is not an array, nothing changes: the
  state is the same, so the snapshot map and the summary are, and the trace is the same, so
  no listener was notified.
\<close>

theorem non_array_ignored:
  assumes "\<not> isArray data"
  shows "handleStockData data s = s
       \<and> getStockData (handleStockData data s) = getStockData s
       \<and> getSummary (handleStockData data s) = getSummary s
       \<and> trace (handleStockData data s) = trace s"
  using assms by (simp add: handleStockData_def)

theorem non_array_ignored_witness:
  "\<not> isArray NonArray \<and> \<not> isArray Absent
   \<and> handleStockData NonArray running_manager = running_manager
   \<and> handleStockData Absent running_manager = running_manager"
  using non_array_ignored [of NonArray running_manager]
    non_array_ignored [of Absent running_manager]
  by (simp add: isArray_def)

subsection \<open>Merging by key\<close>








subsection \<open>The state machine\<close>

lemmas sm_fields = emit_fields suspend_fields resume_fields setState_fields
  stopUpdateTimer_fields handleStockData_fields

lemmas sm_ops = start_def stop_def refresh_def settle_def start_daemon_returned_def
  start_config_settled_def start_failed_def stop_pause_settled_def refresh_settled_def
  performUpdate_settled_def performUpdate_def config_push_settled_def timer_tick_def
  handleConfigChange_def startUpdateTimer_def addUpdateListener_def removeUpdateListener_def
  addStateListener_def removeStateListener_def dispose_def

lemma sm_run_append: "sm_run s (xs @ ys) = sm_run (sm_run s xs) ys"
  by (simp add: sm_run_def)

lemma sm_run_Cons: "sm_run s (x # xs) = sm_run (sm_step s x) xs"
  by (simp add: sm_run_def)

lemma sm_inv_init: "sm_inv (new_StateManager cfg)"
  by (simp add: sm_inv_def new_StateManager_def)

lemma sm_inv_step: "sm_inv s \<Longrightarrow> sm_inv (sm_step s ev)"
  by (cases ev)
     (auto simp: sm_inv_def sm_ops sm_fields Let_def split: option.splits)

lemma sm_inv_run: "sm_inv s \<Longrightarrow> sm_inv (sm_run s evs)"
  unfolding sm_run_def
  by (induction evs arbitrary: s) (simp_all add: sm_inv_step)

lemma stopping_step:
  assumes "sm_inv s" "state s = STOPPING" "\<forall>ok. ev \<noteq> PauseSettled ok"
  shows "state (sm_step s ev) = STOPPING"
  using assms
  by (cases ev)
     (auto simp: sm_inv_def sm_ops sm_fields Let_def split: option.splits)

lemma stopping_run:
  assumes "sm_inv s" "state s = STOPPING" "\<forall>e\<in>set evs. \<forall>ok. e \<noteq> PauseSettled ok"
  shows "state (sm_run s evs) = STOPPING \<and> sm_inv (sm_run s evs)"
  using assms unfolding sm_run_def
  by (induction evs arbitrary: s) (simp_all add: stopping_step sm_inv_step)

lemma pause_settles:
  assumes "sm_inv s" "state s = STOPPING"
  shows "state (sm_step s (PauseSettled ok)) = STOPPED
       \<and> timer (sm_step s (PauseSettled ok)) = None
       \<and> awaiting (sm_step s (PauseSettled ok)) StopAwaitPause = 0
       \<and> (\<not> ok \<longrightarrow> Console Warning ''pause failed'' \<in> set (trace (sm_step s (PauseSettled ok))))"
  using assms
  by (auto simp: sm_inv_def sm_ops sm_fields Let_def)

lemma stop_from_running:
  assumes "sm_inv s" "state s = RUNNING"
  shows "state (sm_step s Stop) = STOPPING \<and> timer (sm_step s Stop) = None
       \<and> sm_inv (sm_step s Stop)"
  using assms sm_inv_step[of s Stop]
  by (auto simp: sm_ops sm_fields)

lemma running_manager_state: "state running_manager = RUNNING"
  by (simp add: running_manager_def sm_run_def new_StateManager_def sm_ops sm_fields)

text \<open>
  Claim C8. Take any state reached from the constructor in which the manager is
  \<open>RUNNING\<close>, and call \<open>stop()\<close>. Whatever events arrive while the call waits for the
  \<open>pause\<close> command (\<open>during\<close>: anything but the settling of that command), the state
  stays \<open>STOPPING\<close> with the timer disarmed; and when the command settles, fulfilled or
  rejected, the call ends with the state \<open>STOPPED\<close> and the timer disarmed. A rejection
  is logged as a warning and changes nothing else. That the command does settle is the
  property of \<open>sendCommand\<close> proved further down.
\<close>

theorem stop_ends_STOPPED:
  assumes reach: "s = sm_run (new_StateManager cfg) before"
    and running: "state s = RUNNING"
    and during: "\<forall>e\<in>set during. \<forall>b. e \<noteq> PauseSettled b"
  shows "state (sm_run s (Stop # during)) = STOPPING
       \<and> timer (sm_run s (Stop # during)) = None
       \<and> state (sm_run s (Stop # during @ [PauseSettled ok])) = STOPPED
       \<and> timer (sm_run s (Stop # during @ [PauseSettled ok])) = None
       \<and> (\<not> ok \<longrightarrow> Console Warning ''pause failed''
              \<in> set (trace (sm_run s (Stop # during @ [PauseSettled ok]))))"
proof -
  have inv: "sm_inv s"
    using reach sm_inv_init sm_inv_run by simp
  let ?s1 = "sm_step s Stop"
  have s1: "state ?s1 = STOPPING" "sm_inv ?s1"
    using stop_from_running[OF inv running] by simp_all
  let ?s2 = "sm_run ?s1 during"
  have s2: "state ?s2 = STOPPING" "sm_inv ?s2"
    using stopping_run[OF s1(2) s1(1) during] by simp_all
  have t2: "timer ?s2 = None"
    using s2 by (simp add: sm_inv_def)
  have fin: "sm_run s (Stop # during @ [PauseSettled ok]) = sm_step ?s2 (PauseSettled ok)"
    by (simp add: sm_run_def)
  have mid: "sm_run s (Stop # during) = ?s2"
    by (simp add: sm_run_def)
  show ?thesis
    unfolding fin mid using s2 t2 pause_settles[OF s2(2) s2(1), of ok] by simp
qed

text \<open>
  A running manager is stopped; while the \<open>pause\<close> command is out, a poll fails,
  \<open>start()\<close> and \<open>refresh()\<close> are called and a malformed push arrives; then the command is
  rejected.
\<close>

theorem stop_ends_STOPPED_witness:
  "state running_manager = RUNNING
   \<and> state (sm_run running_manager
        (Stop # [PollSettled None, Start, Refresh, OnStockData NonArray] @ [PauseSettled False]))
      = STOPPED
   \<and> timer (sm_run running_manager
        (Stop # [PollSettled None, Start, Refresh, OnStockData NonArray] @ [PauseSettled False]))
      = None"
proof -
  have d: "\<forall>e\<in>set [PollSettled None, Start, Refresh, OnStockData NonArray].
             \<forall>b. e \<noteq> PauseSettled b"
    by simp
  show ?thesis
    using stop_ends_STOPPED [OF running_manager_def running_manager_state d, of False]
      running_manager_state
    by simp
qed

text \<open>
  No event leads out of \<open>ERROR\<close>: \<open>start()\<close> returns at its guard, \<open>stop()\<close> and
  \<open>refresh()\<close> at theirs, and no call is suspended that could set the state.
\<close>

lemma error_is_final:
  assumes "sm_inv s" "state s = ERROR"
  shows "state (sm_step s ev) = ERROR"
  using assms
  by (cases ev)
     (auto simp: sm_inv_def sm_ops sm_fields Let_def split: option.splits)

text \<open>
  Claim C2. The daemon fails to start, so the manager is in \<open>ERROR\<close>. A call of
  \<open>start()\<close> now changes nothing at all: the state is still \<open>ERROR\<close>, not \<open>STARTING\<close>,
  and nothing was appended to the trace.
\<close>

theorem start_ignored_in_ERROR:
  "getState (sm_run (new_StateManager cfg) [Start, DaemonReturned False]) = ERROR
   \<and> sm_run (new_StateManager cfg) [Start, DaemonReturned False, Start]
       = sm_run (new_StateManager cfg) [Start, DaemonReturned False]
   \<and> getState (sm_run (new_StateManager cfg) [Start, DaemonReturned False, Start]) = ERROR"
  by (simp add: getState_def sm_run_def new_StateManager_def sm_ops sm_fields)




section \<open>Properties of the PythonClient\<close>

subsection \<open>Splitting the buffer into lines\<close>

lemma split_nl_nonempty: "split_nl t \<noteq> []"
  by (induction t) (auto split: list.splits)

lemma split_nl_no_newline: "10 \<notin> set t \<Longrightarrow> split_nl t = [t]"
  by (induction t) auto

lemma split_nl_line: "10 \<notin> set l \<Longrightarrow> split_nl (l @ 10 # r) = l # split_nl r"
  by (induction l) auto

lemma split_nl_append:
  "butlast (split_nl (a @ b)) = butlast (split_nl a) @ butlast (split_nl (last (split_nl a) @ b))
   \<and> last (split_nl (a @ b)) = last (split_nl (last (split_nl a) @ b))"
proof (induction a rule: length_induct)
  case (1 a)
  show ?case
  proof (cases "10 \<in> set a")
    case False
    then show ?thesis by (simp add: split_nl_no_newline)
  next
    case True
    then obtain l r where a: "a = l @ 10 # r" and l: "10 \<notin> set l"
      by (auto dest: split_list_first)
    have ih: "butlast (split_nl (r @ b)) =
                butlast (split_nl r) @ butlast (split_nl (last (split_nl r) @ b))
              \<and> last (split_nl (r @ b)) = last (split_nl (last (split_nl r) @ b))"
      using 1 a by simp
    have ab: "split_nl (a @ b) = l # split_nl (r @ b)"
      using split_nl_line[OF l, of "r @ b"] a by simp
    have aa: "split_nl a = l # split_nl r"
      using split_nl_line[OF l, of r] a by simp
    show ?thesis
      unfolding ab aa using ih split_nl_nonempty by simp
  qed
qed

lemma node_messageBuffer_frame:
  "messageBuffer (effect e w) = messageBuffer w"
  "messageBuffer (clearTimeout h w) = messageBuffer w"
  "messageBuffer (resolve_promise h r w) = messageBuffer w"
  "messageBuffer (pending_callback h r w) = messageBuffer w"
  "messageBuffer (unsolicited r w) = messageBuffer w"
  "messageBuffer (handleResponse r w) = messageBuffer w"
  "messageBuffer (process_line parse l w) = messageBuffer w"
  by (simp_all add: effect_def clearTimeout_def resolve_promise_def pending_callback_def
      unsolicited_def handleResponse_def process_line_def Let_def split: option.splits)

lemma process_line_buffer:
  "process_line parse l (w\<lparr>messageBuffer := b\<rparr>) = (process_line parse l w)\<lparr>messageBuffer := b\<rparr>"
  by (simp add: effect_def clearTimeout_def resolve_promise_def pending_callback_def
      unsolicited_def handleResponse_def process_line_def Let_def split: option.splits)

lemma fold_process_line_buffer:
  "fold (process_line parse) ls (w\<lparr>messageBuffer := b\<rparr>)
     = (fold (process_line parse) ls w)\<lparr>messageBuffer := b\<rparr>"
  by (induction ls arbitrary: w) (simp_all add: process_line_buffer)

lemma messageBuffer_fold_process_line:
  "messageBuffer (fold (process_line parse) ls w) = messageBuffer w"
  by (induction ls arbitrary: w) (simp_all add: node_messageBuffer_frame)

lemma messageBuffer_feed_text:
  "messageBuffer (feed_text parse t w) = last (split_nl (messageBuffer w @ t))"
  by (simp add: feed_text_def processMessages_def Let_def messageBuffer_fold_process_line)

text \<open>
  Text that arrives in two pieces is processed as the same text in one piece.
\<close>

lemma feed_text_append:
  "feed_text parse b (feed_text parse a w) = feed_text parse (a @ b) w"
proof -
  let ?m = "messageBuffer w"
  let ?r = "last (split_nl (?m @ a))"
  let ?L1 = "butlast (split_nl (?m @ a))"
  let ?L2 = "butlast (split_nl (?r @ b))"
  let ?x = "last (split_nl (?r @ b))"
  have sp: "butlast (split_nl (?m @ a @ b)) = ?L1 @ ?L2" "last (split_nl (?m @ a @ b)) = ?x"
    using split_nl_append[of "?m @ a" b] by simp_all
  have "feed_text parse (a @ b) w = fold (process_line parse) (?L1 @ ?L2) (w\<lparr>messageBuffer := ?x\<rparr>)"
    by (simp add: feed_text_def processMessages_def Let_def sp)
  also have "\<dots> = fold (process_line parse) ?L2
                    ((fold (process_line parse) ?L1 (w\<lparr>messageBuffer := ?r\<rparr>))\<lparr>messageBuffer := ?x\<rparr>)"
    by (simp add: fold_process_line_buffer)
  also have "\<dots> = feed_text parse b (feed_text parse a w)"
    by (simp add: feed_text_def processMessages_def Let_def messageBuffer_fold_process_line)
  finally show ?thesis by simp
qed

lemma on_stdout_data_feed: "on_stdout_data parse data w = feed_text parse (toString data) w"
  by (simp add: on_stdout_data_def feed_text_def)

lemma feed_text_empty: "10 \<notin> set (messageBuffer w) \<Longrightarrow> feed_text parse [] w = w"
  by (simp add: feed_text_def processMessages_def split_nl_no_newline)

lemma fold_on_stdout_data:
  "10 \<notin> set (messageBuffer w) \<Longrightarrow>
   fold (on_stdout_data parse) chunks w = feed_text parse (concat (map toString chunks)) w"
proof (induction chunks rule: rev_induct)
  case Nil
  then show ?case by (simp add: feed_text_empty)
next
  case (snoc c cs)
  then show ?case by (simp add: on_stdout_data_feed feed_text_append)
qed

lemma messageBuffer_update_same: "messageBuffer w = b \<Longrightarrow> w\<lparr>messageBuffer := b\<rparr> = w"
  by (cases w) simp

lemma feed_one_record:
  assumes "messageBuffer w = []" "10 \<notin> set a"
  shows "feed_text parse (a @ [10]) w = process_line parse a w"
proof -
  have "split_nl (a @ [10]) = [a, []]"
    using assms split_nl_line[of a "[]"] by simp
  moreover have "messageBuffer (process_line parse a w) = []"
    using assms by (simp add: node_messageBuffer_frame)
  ultimately show ?thesis
    using assms
    by (simp add: feed_text_def processMessages_def fold_process_line_buffer
        messageBuffer_update_same)
qed

lemma feed_two_records:
  assumes "messageBuffer w = []" "10 \<notin> set a" "10 \<notin> set b"
  shows "feed_text parse (a @ [10] @ b @ [10]) w
           = process_line parse b (process_line parse a w)"
proof -
  have "split_nl (a @ 10 # b @ [10]) = [a, b, []]"
    using assms by (simp add: split_nl_line)
  moreover have "messageBuffer (process_line parse b (process_line parse a w)) = []"
    using assms by (simp add: node_messageBuffer_frame)
  ultimately show ?thesis
    using assms
    by (simp add: feed_text_def processMessages_def fold_process_line_buffer
        messageBuffer_update_same)
qed

text \<open>The status record decodes as it should, and each of its two halves on its own.\<close>

lemma toString_status_1: "toString status_bytes_1 = [0x7B, 0x22, 0x73, 0x74, 0x61, 0x74, 0x75, 0x73, 0x22, 0x3A, 0x22, 0xFFFD]"
  by (simp add: toString_def status_bytes_1_def lead_byte_def)

lemma toString_status_2: "toString status_bytes_2 = [0xFFFD, 0x22, 0x7D, 0x0A]"
  by (simp add: toString_def status_bytes_2_def lead_byte_def)

lemma toString_status: "toString (status_bytes_1 @ status_bytes_2) = status_text [0xE9] @ [10]"
  by (simp add: toString_def status_bytes_1_def status_bytes_2_def lead_byte_def status_text_def)

lemma trim_status_text: "trim (status_text [0xE9]) \<noteq> []"
  by (simp add: trim_def status_text_def js_space_def)

lemma status_parse_simps:
  "status_parse [0x78] = None" "status_parse (status_text [0xE9]) = Some status_response"
  by (simp_all add: status_parse_def status_text_def)

text \<open>
  Claim C7. The stream holds a malformed record and then a well-formed one, each ended
  by a newline, and arrives in any number of chunks. A malformed record is a line that is
  not blank and that \<open>JSON.parse\<close> rejects. The result is that of logging the malformed
  record and handling the well-formed one, nothing more: exactly one message is delivered
  to \<open>handleResponse\<close>, the buffer is empty again. (A blank line is skipped before
  \<open>JSON.parse\<close> is called and leaves no log entry.)
\<close>

theorem malformed_record_dropped:
  assumes start: "messageBuffer w = []"
    and stream: "concat (map toString chunks) = bad @ [10] @ good @ [10]"
    and bad: "10 \<notin> set bad" "trim bad \<noteq> []" "parse bad = None"
    and good: "10 \<notin> set good" "trim good \<noteq> []" "parse good = Some m"
  shows "fold (on_stdout_data parse) chunks w
           = handleResponse m (effect (LogParseFailure bad) w)
       \<and> handled (fold (on_stdout_data parse) chunks w) = handled w @ [m]
       \<and> messageBuffer (fold (on_stdout_data parse) chunks w) = []"
proof -
  have "fold (on_stdout_data parse) chunks w = feed_text parse (bad @ [10] @ good @ [10]) w"
    using fold_on_stdout_data[of w parse chunks] start stream by simp
  also have "\<dots> = process_line parse good (process_line parse bad w)"
    using feed_two_records[OF start bad(1) good(1)] by simp
  also have "\<dots> = handleResponse m (effect (LogParseFailure bad) w)"
    using bad good by (simp add: process_line_def)
  finally have eq: "fold (on_stdout_data parse) chunks w
                      = handleResponse m (effect (LogParseFailure bad) w)" .
  have h: "handled (handleResponse m (effect (LogParseFailure bad) w)) = handled w @ [m]"
    by (simp add: handled_def effect_def clearTimeout_def resolve_promise_def
        pending_callback_def unsolicited_def handleResponse_def Let_def split: option.splits)
  show ?thesis
    unfolding eq using h start by (simp add: node_messageBuffer_frame)
qed

text \<open>
  The stream \<open>x\<close>, newline, the status record, newline, in two chunks.
\<close>

theorem malformed_record_dropped_witness:
  "messageBuffer new_PythonClient = []
   \<and> concat (map toString [[0x78, 0x0A], status_bytes_1 @ status_bytes_2])
       = [0x78] @ [10] @ status_text [0xE9] @ [10]
   \<and> status_parse [0x78] = None
   \<and> status_parse (status_text [0xE9]) = Some status_response
   \<and> handled (fold (on_stdout_data status_parse) [[0x78, 0x0A], status_bytes_1 @ status_bytes_2]
        new_PythonClient) = [status_response]
   \<and> effects (fold (on_stdout_data status_parse) [[0x78, 0x0A], status_bytes_1 @ status_bytes_2]
        new_PythonClient) = [LogParseFailure [0x78], Handled status_response]"
proof -
  let ?chunks = "[[0x78, 0x0A], status_bytes_1 @ status_bytes_2]"
  have b: "messageBuffer new_PythonClient = []"
    by (simp add: new_PythonClient_def)
  have s: "concat (map toString ?chunks) = [0x78] @ [10] @ status_text [0xE9] @ [10]"
    by (simp add: toString_status) (simp add: toString_def lead_byte_def)
  have n1: "10 \<notin> set [0x78::nat]" and t1: "trim [0x78] \<noteq> []"
    by (simp_all add: trim_def js_space_def)
  have n2: "10 \<notin> set (status_text [0xE9])"
    by (simp add: status_text_def)
  note inst = malformed_record_dropped
    [OF b s n1 t1 status_parse_simps(1) n2 trim_status_text status_parse_simps(2)]
  have h: "handled (fold (on_stdout_data status_parse) ?chunks new_PythonClient) = [status_response]"
    using inst [THEN conjunct2, THEN conjunct1] by (simp add: handled_def new_PythonClient_def)
  have "effects (handleResponse status_response (effect (LogParseFailure [0x78]) new_PythonClient))
             = [LogParseFailure [0x78], Handled status_response]"
    by (simp add: handleResponse_def unsolicited_def effect_def new_PythonClient_def
        status_response_def)
  then have e: "effects (fold (on_stdout_data status_parse) ?chunks new_PythonClient)
             = [LogParseFailure [0x78], Handled status_response]"
    by (simp only: inst [THEN conjunct1])
  show ?thesis
    using b s status_parse_simps h e by blast
qed

subsection \<open>Decoding chunk by chunk\<close>

lemma utf8_ascii: "\<forall>b\<in>set bs. unat b \<le> 0x7F \<Longrightarrow> utf8 0 0 0x80 0xBF bs = map unat bs"
  by (induction bs) (simp_all add: lead_byte_def Let_def)

lemma toString_ascii: "\<forall>b\<in>set bs. unat b \<le> 0x7F \<Longrightarrow> toString bs = map unat bs"
  by (simp add: toString_def utf8_ascii)

text \<open>
  A message of ASCII bytes may be cut anywhere.
\<close>

lemma reassembly_ascii:
  assumes "\<forall>b\<in>set bs. unat b \<le> 0x7F"
  shows "on_stdout_data parse (drop k bs) (on_stdout_data parse (take k bs) w)
           = on_stdout_data parse bs w"
proof -
  have "\<forall>b\<in>set (take k bs). unat b \<le> 0x7F" "\<forall>b\<in>set (drop k bs). unat b \<le> 0x7F"
    using assms by (auto dest: in_set_takeD in_set_dropD)
  then have "toString (take k bs) @ toString (drop k bs) = toString bs"
    using assms by (simp add: toString_ascii flip: map_append)
  then show ?thesis
    by (simp add: on_stdout_data_feed feed_text_append)
qed

text \<open>
  Claim C6. The bytes of the status record, whose string value is the two-byte character
  U+00E9, are cut between the two bytes. Delivered whole, the line handed to \<open>JSON.parse\<close>
  is the record. Delivered as the two chunks, each chunk is decoded on its own, each half
  of the character becomes U+FFFD, and the line handed to \<open>JSON.parse\<close> has the string
  value U+FFFD U+FFFD: another text, so another message.
\<close>

theorem split_inside_character:
  "on_stdout_data parse (status_bytes_1 @ status_bytes_2) new_PythonClient
     = process_line parse (status_text [0xE9]) new_PythonClient
   \<and> on_stdout_data parse status_bytes_2 (on_stdout_data parse status_bytes_1 new_PythonClient)
     = process_line parse (status_text [0xFFFD, 0xFFFD]) new_PythonClient
   \<and> status_text [0xFFFD, 0xFFFD] \<noteq> status_text [0xE9]"
proof -
  have d: "status_text [0xFFFD, 0xFFFD] \<noteq> status_text [0xE9]"
    by (simp add: status_text_def)
  have b: "messageBuffer new_PythonClient = []"
    by (simp add: new_PythonClient_def)
  have n1: "10 \<notin> set (status_text [0xE9])" and n2: "10 \<notin> set (status_text [0xFFFD, 0xFFFD])"
    by (simp_all add: status_text_def)
  have "toString status_bytes_1 @ toString status_bytes_2 = (status_text [0xFFFD, 0xFFFD]) @ [10]"
    by (simp add: toString_status_1 toString_status_2 status_text_def)
  then show ?thesis
    using feed_one_record[OF b n1, of parse] feed_one_record[OF b n2, of parse] d
    by (simp add: on_stdout_data_feed feed_text_append toString_status)
qed

subsection \<open>The correlation table\<close>




lemma same_corr_future: "same_corr w' w \<Longrightarrow> timers_future w' = timers_future w"
  by (simp add: same_corr_def timers_future_def)










lemma future_same: "same_corr w' w \<Longrightarrow> timers_future w \<Longrightarrow> timers_future w'"
  by (simp add: same_corr_future)



























































lemma client_run_append:
  "client_run parse ok w (xs @ ys) = client_run parse ok (client_run parse ok w xs) ys"
  by (simp add: client_run_def)



lemmas client_ops = client_run_def startDaemon_def startDaemon_spawn_def
  startDaemon_returned_def stopDaemon_def run_after_stop_def kill_def proc_killed_def
  sendCommand_def setTimeout_def clearTimeout_def effect_def advance_def fire_def
  command_timeout_def reject_promise_def resolve_promise_def pending_callback_def
  handleResponse_def unsolicited_def on_exit_def exit_handler_def handleProcessExit_def
  once_exit_listener_def Let_def




subsection \<open>The restart policy\<close>

text \<open>
  A worker that has exited on its own is not restarted: \<open>startDaemon\<close> first waits in
  \<open>stopDaemon\<close> for the exit event of a process that has already emitted it.
\<close>

lemma restart_after_crash_waits:
  "effects (client_run never_parses always_spawns new_PythonClient
      [EvStartDaemon, EvExit 0 (Some 1) None, EvAdvance 1000, EvAdvance 100000])
     = [Spawned 0, InfoDaemonStarted, StartDaemonResult True, LogExit (Some 1) None,
        WarnRestarting 1 5]
   \<and> exit_once (client_run never_parses always_spawns new_PythonClient
      [EvStartDaemon, EvExit 0 (Some 1) None, EvAdvance 1000, EvAdvance 100000])
     = [(0, ThenSpawn Restart)]"
  by (simp add: client_ops new_PythonClient_def always_spawns_def)

lemma looping_start:
  "looping (client_run parse always_spawns new_PythonClient [EvStartDaemon, EvStartDaemon]) 0 External"
  by (simp add: looping_def client_run_def startDaemon_def startDaemon_spawn_def
      startDaemon_returned_def stopDaemon_def kill_def proc_killed_def effect_def
      new_PythonClient_def always_spawns_def Let_def)

lemma looping_exit:
  assumes "looping w p k"
  shows "effects (client_step parse always_spawns w (EvExit p (Some 1) None))
           = effects w @ [LogExit (Some 1) None, WarnRestarting 1 5, Spawned (Suc p),
                          InfoDaemonStarted,
                          (case k of External \<Rightarrow> StartDaemonResult True | Restart \<Rightarrow> InfoRestarted)]"
  using assms
  by (simp add: looping_def on_exit_def exit_handler_def handleProcessExit_def setTimeout_def
      once_exit_listener_def run_after_stop_def startDaemon_spawn_def startDaemon_returned_def
      effect_def always_spawns_def Let_def split: start_caller.splits)

lemma looping_step:
  assumes "looping w p k"
  shows "looping (client_run parse always_spawns w (exit_and_wait p)) (Suc p) Restart"
  using assms
  by (simp add: looping_def exit_and_wait_def client_run_def on_exit_def exit_handler_def
      handleProcessExit_def setTimeout_def
      once_exit_listener_def run_after_stop_def startDaemon_spawn_def startDaemon_returned_def
      advance_def fire_def clearTimeout_def startDaemon_def stopDaemon_def kill_def
      proc_killed_def nth_append
      effect_def always_spawns_def Let_def split: start_caller.splits)

lemma looping_worker_Suc:
  "looping_worker (Suc n)
     = client_run never_parses always_spawns (looping_worker n) (exit_and_wait n)"
  by (simp add: looping_worker_def restart_loop_def client_run_def)

lemma looping_worker_loops:
  "looping (looping_worker n) n (if n = 0 then External else Restart)"
proof (induction n)
  case 0
  show ?case
    using looping_start [of never_parses]
    by (simp add: looping_worker_def restart_loop_def)
next
  case (Suc n)
  show ?case
    using looping_step [OF Suc, of never_parses] by (simp add: looping_worker_Suc)
qed

text \<open>
  Claim C1. The worker has ended with exit code 1 six times, the last five times after
  an automatic restart and with no call of \<open>start()\<close> from outside in between. The restart
  counter is 0, because each restart went through \<open>startDaemon\<close>, which resets it. So the
  next such exit is announced as restart 1 of 5 and answered by a new worker; the message
  that the restarts are exhausted is not shown.
\<close>

theorem restart_counter_reset:
  "restartCount (looping_worker 6) = 0
   \<and> count_list (effects (looping_worker 6)) (LogExit (Some 1) None) = 6
   \<and> effects (client_step never_parses always_spawns (looping_worker 6) (EvExit 6 (Some 1) None))
       = effects (looping_worker 6) @ [LogExit (Some 1) None, WarnRestarting 1 5, Spawned 7,
                                   InfoDaemonStarted, InfoRestarted]
   \<and> ErrRestartsExhausted \<notin> set (effects
        (client_step never_parses always_spawns (looping_worker 6) (EvExit 6 (Some 1) None)))"
proof -
  have l: "looping (looping_worker 6) 6 Restart"
    using looping_worker_loops [of 6] by simp
  have e: "effects (client_step never_parses always_spawns (looping_worker 6) (EvExit 6 (Some 1) None))
       = effects (looping_worker 6) @ [LogExit (Some 1) None, WarnRestarting 1 5, Spawned 7,
                                   InfoDaemonStarted, InfoRestarted]"
    using looping_exit [OF l, of never_parses] by simp
  show ?thesis
    unfolding e using l by (simp add: looping_def)
qed

text \<open>
  The same after any number of exits.
\<close>

theorem restart_never_bounded:
  "restartCount (looping_worker n) = 0
   \<and> count_list (effects (looping_worker n)) (LogExit (Some 1) None) = n
   \<and> ErrRestartsExhausted \<notin> set (effects (looping_worker n))
   \<and> WarnRestarting 1 5 \<in> set (effects
        (client_step never_parses always_spawns (looping_worker n) (EvExit n (Some 1) None)))"
proof -
  note l = looping_worker_loops [of n]
  show ?thesis
    using l looping_exit [OF l, of never_parses] by (simp add: looping_def)
qed

end
